theory Spec2Isabelle
  imports Complex_Main "HOL-Library.Sublist" "HOL-Library.Word"
begin

section \<open>Values shared by the services\<close>

text \<open>
  A market record is one JSON object of the provider's answer, a Python dict from field
  names to values. The fields the program reads hold integers, floats or strings; a field
  can be absent. An integer is one that fits int64, the dtype pandas gives a column of
  integers (a larger one makes pandas choose another dtype, which is not modelled). A
  float is modelled as an exact real: rounding of float64 is not modelled. JSON null and
  nested values are not part of the model.
\<close>

datatype json = JInt "64 word" | JFloat real | JStr string

type_synonym market_record = "string \<rightharpoonup> json"

type_synonym batch = "market_record list"

text \<open>The exceptions that the modelled paths raise. The first four are the ones of the
  \<open>requests\<close> library that derive from \<open>RequestException\<close>.\<close>

datatype py_exception =
  ConnectionError | Timeout | HTTPError | JSONDecodeError | TypeError | KeyError
  | SocketError | SheetsApiError

fun is_RequestException :: "py_exception \<Rightarrow> bool" where
  "is_RequestException ConnectionError = True"
| "is_RequestException Timeout = True"
| "is_RequestException HTTPError = True"
| "is_RequestException JSONDecodeError = True"
| "is_RequestException _ = False"

text \<open>A Python float: a number, or NaN.\<close>

datatype pyfloat = Fin real | NaN

text \<open>Sequencing of steps that may raise: \<open>Inl\<close> is a raised exception.\<close>

definition ebind :: "py_exception + 'a \<Rightarrow> ('a \<Rightarrow> py_exception + 'b) \<Rightarrow> py_exception + 'b" where
  "ebind m f = (case m of Inl e \<Rightarrow> Inl e | Inr x \<Rightarrow> f x)"

section \<open>crypto\_service.fetch\_crypto\_data\<close>

text \<open>
  What the outbound request meets: \<open>requests.get\<close> raises (no connection, timeout), or
  a response arrives with a status code and a body that \<open>response.json()\<close> either
  rejects or parses into a list of records.
\<close>

datatype body = NotJson | Json batch

datatype http_outcome = RequestRaises py_exception | Response nat body

text \<open>\<open>Response.raise_for_status\<close> of requests: an HTTPError for a 4xx or 5xx status.\<close>

definition raise_for_status :: "nat \<Rightarrow> py_exception + unit" where
  "raise_for_status status_code =
     (if 400 \<le> status_code \<and> status_code < 600 then Inl HTTPError else Inr ())"

definition response_json :: "body \<Rightarrow> py_exception + batch" where
  "response_json b = (case b of NotJson \<Rightarrow> Inl JSONDecodeError | Json data \<Rightarrow> Inr data)"

text \<open>The body of the \<open>try\<close> block.\<close>

definition fetch_try :: "http_outcome \<Rightarrow> py_exception + batch" where
  "fetch_try net =
     (case net of
        RequestRaises e \<Rightarrow> Inl e
      | Response status_code b \<Rightarrow>
          ebind (raise_for_status status_code) (\<lambda>_.
          ebind (response_json b) (\<lambda>data.
            if data = [] then Inr [] else Inr data)))"

text \<open>The whole function: both handlers log and return the empty list.\<close>

definition fetch_crypto_data :: "http_outcome \<Rightarrow> py_exception + batch" where
  "fetch_crypto_data net =
     (case fetch_try net of
        Inr data \<Rightarrow> Inr data
      | Inl e \<Rightarrow> (if is_RequestException e then Inr [] else Inr []))"

section \<open>crypto\_service.analyze\_crypto\_data\<close>

subsection \<open>The part of pandas the function uses\<close>

text \<open>
  A cell of a DataFrame column: an integer, a float, a string, or NaN where the record
  had no such key. The dtype of a column follows from its cells: int64 when every cell is
  an integer, object when a cell is a string, float64 otherwise (the integers are then
  converted to floats).
\<close>

datatype cell = CInt "64 word" | CNum real | CStr string | CNaN

record dataframe =
  nrows :: nat
  cols :: "string \<rightharpoonup> cell list"

definition cell_of :: "json option \<Rightarrow> cell" where
  "cell_of v =
     (case v of
        None \<Rightarrow> CNaN
      | Some (JInt i) \<Rightarrow> CInt i
      | Some (JFloat x) \<Rightarrow> CNum x
      | Some (JStr s) \<Rightarrow> CStr s)"

text \<open>\<open>pd.DataFrame(data)\<close> on a list of dicts: one row per record, one column per key
  that occurs in some record, NaN where a record lacks the key.\<close>

definition DataFrame :: "batch \<Rightarrow> py_exception + dataframe" where
  "DataFrame data =
     Inr \<lparr>nrows = length data,
          cols = (\<lambda>c. if list_ex (\<lambda>r. r c \<noteq> None) data
                       then Some (map (\<lambda>r. cell_of (r c)) data) else None)\<rparr>"

text \<open>\<open>df[col] = v\<close> with a scalar: the value in every row.\<close>

definition set_column :: "dataframe \<Rightarrow> string \<Rightarrow> cell \<Rightarrow> dataframe" where
  "set_column df c v = df\<lparr>cols := (cols df)(c \<mapsto> replicate (nrows df) v)\<rparr>"

text \<open>\<open>df[col]\<close>.\<close>

definition get_column :: "dataframe \<Rightarrow> string \<Rightarrow> py_exception + cell list" where
  "get_column df c = (case cols df c of None \<Rightarrow> Inl KeyError | Some s \<Rightarrow> Inr s)"

text \<open>
  The numeric reductions of a Series skip NaN; on a column that holds a string they
  raise (the text of the exception is pandas's and is not modelled). \<open>mean\<close>,
  \<open>median\<close> and \<open>std\<close> compute in float64 on every numeric column, and \<open>min\<close> and
  \<open>max\<close> are read through \<open>float(...)\<close>: \<open>numbers\<close> gives the values of a column as
  floats. \<open>sum\<close> alone keeps the dtype: on an int64 column it adds in int64, and wraps.
\<close>

fun is_CStr :: "cell \<Rightarrow> bool" where
  "is_CStr (CStr _) = True"
| "is_CStr _ = False"

fun is_CInt :: "cell \<Rightarrow> bool" where
  "is_CInt (CInt _) = True"
| "is_CInt _ = False"

fun numbers :: "cell list \<Rightarrow> real list" where
  "numbers [] = []"
| "numbers (CInt i # cs) = real_of_int (sint i) # numbers cs"
| "numbers (CNum x # cs) = x # numbers cs"
| "numbers (_ # cs) = numbers cs"

fun ints :: "cell list \<Rightarrow> 64 word list" where
  "ints [] = []"
| "ints (CInt i # cs) = i # ints cs"
| "ints (_ # cs) = ints cs"

definition numeric :: "cell list \<Rightarrow> py_exception + real list" where
  "numeric s = (if list_ex is_CStr s then Inl TypeError else Inr (numbers s))"

definition mean_of :: "real list \<Rightarrow> pyfloat" where
  "mean_of xs = (if xs = [] then NaN else Fin (sum_list xs / real (length xs)))"

definition median_of :: "real list \<Rightarrow> pyfloat" where
  "median_of xs =
     (let s = sort xs; n = length s in
      if n = 0 then NaN
      else if n mod 2 = 1 then Fin (s ! (n div 2))
      else Fin ((s ! (n div 2 - 1) + s ! (n div 2)) / 2))"

text \<open>\<open>Series.std()\<close> has \<open>ddof=1\<close>: fewer than two values give NaN.\<close>

definition std_of :: "real list \<Rightarrow> pyfloat" where
  "std_of xs =
     (let n = length xs in
      if n < 2 then NaN
      else let m = sum_list xs / real n in
        Fin (sqrt (sum_list (map (\<lambda>x. (x - m)\<^sup>2) xs) / real (n - 1))))"

definition min_of :: "real list \<Rightarrow> pyfloat" where
  "min_of xs = (case xs of [] \<Rightarrow> NaN | x # ys \<Rightarrow> Fin (fold min ys x))"

definition max_of :: "real list \<Rightarrow> pyfloat" where
  "max_of xs = (case xs of [] \<Rightarrow> NaN | x # ys \<Rightarrow> Fin (fold max ys x))"

text \<open>The sum of a float64 column, and the sum of an int64 column: addition of 64-bit
  words, read as a signed integer and then through \<open>float(...)\<close>.\<close>

definition sum_float64 :: "real list \<Rightarrow> pyfloat" where
  "sum_float64 xs = Fin (sum_list xs)"

definition sum_int64 :: "64 word list \<Rightarrow> pyfloat" where
  "sum_int64 ws = Fin (real_of_int (sint (sum_list ws)))"

definition series_mean :: "cell list \<Rightarrow> py_exception + pyfloat" where
  "series_mean s = ebind (numeric s) (\<lambda>xs. Inr (mean_of xs))"

definition series_median :: "cell list \<Rightarrow> py_exception + pyfloat" where
  "series_median s = ebind (numeric s) (\<lambda>xs. Inr (median_of xs))"

definition series_std :: "cell list \<Rightarrow> py_exception + pyfloat" where
  "series_std s = ebind (numeric s) (\<lambda>xs. Inr (std_of xs))"

definition series_min :: "cell list \<Rightarrow> py_exception + pyfloat" where
  "series_min s = ebind (numeric s) (\<lambda>xs. Inr (min_of xs))"

definition series_max :: "cell list \<Rightarrow> py_exception + pyfloat" where
  "series_max s = ebind (numeric s) (\<lambda>xs. Inr (max_of xs))"

definition series_sum :: "cell list \<Rightarrow> py_exception + pyfloat" where
  "series_sum s =
     ebind (numeric s) (\<lambda>xs.
       if list_all is_CInt s then Inr (sum_int64 (ints s)) else Inr (sum_float64 xs))"

subsection \<open>The function\<close>

text \<open>The returned dict. \<open>PExc e\<close> stands for \<open>str(e)\<close>.\<close>

datatype pyval = PStr string | PFloat pyfloat | PDict "(string \<times> pyval) list" | PExc py_exception

type_synonym pydict = "(string \<times> pyval) list"

definition required_columns :: "string list" where
  "required_columns =
     [''market_cap'', ''current_price'', ''price_change_percentage_24h'',
      ''price_change_percentage_7d'', ''name'', ''symbol'']"

text \<open>Python's \<open>pat in s\<close> on strings.\<close>

fun str_contains :: "string \<Rightarrow> string \<Rightarrow> bool" where
  "str_contains pat [] = (pat = [])"
| "str_contains pat (c # cs) = (prefix pat (c # cs) \<or> str_contains pat cs)"

definition default_value :: "string \<Rightarrow> cell" where
  "default_value col =
     (if str_contains ''price_change_percentage'' col then CNum 0
      else if col = ''market_cap'' then CInt 0
      else CStr ''N/A'')"

definition missing_columns :: "dataframe \<Rightarrow> string list" where
  "missing_columns df = filter (\<lambda>col. cols df col = None) required_columns"

definition fill_missing :: "dataframe \<Rightarrow> dataframe" where
  "fill_missing df = fold (\<lambda>col d. set_column d col (default_value col)) (missing_columns df) df"

definition price_stats :: "dataframe \<Rightarrow> py_exception + pydict" where
  "price_stats df =
     ebind (ebind (get_column df ''current_price'') series_mean) (\<lambda>mean_price.
     ebind (ebind (get_column df ''current_price'') series_median) (\<lambda>median_price.
     ebind (ebind (get_column df ''current_price'') series_std) (\<lambda>price_std_dev.
     ebind (ebind (get_column df ''current_price'') series_min) (\<lambda>min_price.
     ebind (ebind (get_column df ''current_price'') series_max) (\<lambda>max_price.
       Inr [(''mean_price'', PFloat mean_price),
            (''median_price'', PFloat median_price),
            (''price_std_dev'', PFloat price_std_dev),
            (''min_price'', PFloat min_price),
            (''max_price'', PFloat max_price)])))))"

definition market_cap_insights :: "dataframe \<Rightarrow> py_exception + pydict" where
  "market_cap_insights df =
     ebind (ebind (get_column df ''market_cap'') series_sum) (\<lambda>total_market_cap.
     ebind (ebind (get_column df ''market_cap'') series_mean) (\<lambda>mean_market_cap.
     ebind (ebind (get_column df ''market_cap'') series_median) (\<lambda>median_market_cap.
       Inr [(''total_market_cap'', PFloat total_market_cap),
            (''mean_market_cap'', PFloat mean_market_cap),
            (''median_market_cap'', PFloat median_market_cap)])))"

text \<open>The body of the second \<open>try\<close> block.\<close>

definition analysis_try :: "string \<Rightarrow> dataframe \<Rightarrow> py_exception + pydict" where
  "analysis_try now df =
     ebind (price_stats df) (\<lambda>ps.
     ebind (market_cap_insights df) (\<lambda>mc.
       Inr [(''price_statistics'', PDict ps),
            (''market_cap_insights'', PDict mc),
            (''timestamp'', PStr now)]))"

text \<open>\<open>now\<close> is \<open>str(pd.Timestamp.now())\<close>, the clock as the call reads it (once on
  every path).\<close>

definition analyze_crypto_data :: "string \<Rightarrow> batch \<Rightarrow> py_exception + pydict" where
  "analyze_crypto_data now data =
     (if data = [] then
        Inr [(''error'', PStr ''No data available for analysis''), (''timestamp'', PStr now)]
      else
        case DataFrame data of
          Inl e \<Rightarrow>
            Inr [(''error'', PStr ''Failed to process data''), (''details'', PExc e),
                 (''timestamp'', PStr now)]
        | Inr df0 \<Rightarrow>
            (case analysis_try now (fill_missing df0) of
               Inr analysis \<Rightarrow> Inr analysis
             | Inl e \<Rightarrow>
                 Inr [(''error'', PStr ''Analysis failed''), (''details'', PExc e),
                      (''timestamp'', PStr now)]))"

section \<open>google\_sheets\_service.GoogleSheetsService.update\_sheet\<close>

text \<open>
  What the calls to the spreadsheet API do (clear, then update): they succeed or raise.
  The handler of \<open>update_sheet\<close> logs the exception and raises it again. The rows that
  are written are not modelled.
\<close>

datatype sheets_outcome = SheetsOk | SheetsRaises py_exception

definition update_sheet :: "sheets_outcome \<Rightarrow> batch \<Rightarrow> py_exception + unit" where
  "update_sheet api crypto_data =
     (case api of
        SheetsOk \<Rightarrow> Inr ()
      | SheetsRaises e \<Rightarrow> Inl e)"

section \<open>app.background\_update\<close>

text \<open>
  The loop acts on the world; the model records what it does as a list of events, in
  order. What the world answers in one pass of the loop is a \<open>cycle_env\<close>: the outcome of
  the request, the clock read by the analysis, whether \<open>socketio.emit\<close> raises, and the
  outcome of the spreadsheet calls.
\<close>

datatype event =
  Fetch
  | Warning string
  | Emit batch pydict
  | UpdateSheet batch
  | ErrorLog py_exception
  | Sleep nat
  | Critical string

record cycle_env =
  net :: http_outcome
  clock :: string
  emit_raises :: "py_exception option"
  sheets :: sheets_outcome

definition max_errors :: nat where
  "max_errors = 5"

text \<open>
  The body of the \<open>try\<close> block of one pass: the events so far, and either the exception
  that left the block or the new value of \<open>error_count\<close>. \<open>sheets_service\<close> is the
  truth value of the module's service object (None when its construction failed).
\<close>

definition cycle_try :: "bool \<Rightarrow> nat \<Rightarrow> cycle_env \<Rightarrow> event list \<times> (py_exception + nat)" where
  "cycle_try sheets_service error_count c =
     (case fetch_crypto_data (net c) of
        Inl e \<Rightarrow> ([Fetch], Inl e)
      | Inr crypto_data \<Rightarrow>
          if crypto_data = [] then
            ([Fetch, Warning ''No crypto data fetched'', Sleep 60], Inr (error_count + 1))
          else
            (case analyze_crypto_data (clock c) crypto_data of
               Inl e \<Rightarrow> ([Fetch], Inl e)
             | Inr analysis_results \<Rightarrow>
                 (case emit_raises c of
                    Some e \<Rightarrow> ([Fetch], Inl e)
                  | None \<Rightarrow>
                      if sheets_service then
                        (case update_sheet (sheets c) crypto_data of
                           Inl e \<Rightarrow>
                             ([Fetch, Emit crypto_data analysis_results,
                               UpdateSheet crypto_data], Inl e)
                         | Inr _ \<Rightarrow>
                             ([Fetch, Emit crypto_data analysis_results,
                               UpdateSheet crypto_data, Sleep 300], Inr 0))
                      else
                        ([Fetch, Emit crypto_data analysis_results, Sleep 300], Inr 0))))"

text \<open>One pass with its handler: an exception is logged, counted and followed by the
  one-minute sleep.\<close>

definition cycle :: "bool \<Rightarrow> nat \<Rightarrow> cycle_env \<Rightarrow> event list \<times> nat" where
  "cycle sheets_service error_count c =
     (case cycle_try sheets_service error_count c of
        (evs, Inr n) \<Rightarrow> (evs, n)
      | (evs, Inl e) \<Rightarrow> (evs @ [ErrorLog e, Sleep 60], error_count + 1))"

text \<open>
  The \<open>while\<close> loop over a script of passes. The loop ends only through its condition;
  \<open>Halted\<close> is the function returning after the critical log line, \<open>Running n\<close> is the
  loop still going, with \<open>error_count = n\<close>, when the script is used up.
\<close>

datatype run_state = Halted | Running nat

fun run :: "bool \<Rightarrow> nat \<Rightarrow> cycle_env list \<Rightarrow> event list \<times> run_state" where
  "run sheets_service error_count [] =
     (if error_count < max_errors then ([], Running error_count)
      else ([Critical ''Background update stopped due to repeated errors''], Halted))"
| "run sheets_service error_count (c # cs) =
     (if error_count < max_errors then
        (case cycle sheets_service error_count c of
           (evs, n) \<Rightarrow>
             (case run sheets_service n cs of (rest, st) \<Rightarrow> (evs @ rest, st)))
      else ([Critical ''Background update stopped due to repeated errors''], Halted))"

definition background_update :: "bool \<Rightarrow> cycle_env list \<Rightarrow> event list \<times> run_state" where
  "background_update sheets_service script = run sheets_service 0 script"

section \<open>Sample data\<close>

text \<open>The first two records of \<open>main\<close> in google\_sheets\_service.\<close>

definition bitcoin :: market_record where
  "bitcoin =
     [''name'' \<mapsto> JStr ''Bitcoin'', ''symbol'' \<mapsto> JStr ''BTC'',
      ''current_price'' \<mapsto> JInt 50000, ''market_cap'' \<mapsto> JInt 1000000000,
      ''total_volume'' \<mapsto> JInt 100000, ''price_change_percentage_24h'' \<mapsto> JFloat 2.5,
      ''market_cap_rank'' \<mapsto> JInt 1]"

definition ethereum :: market_record where
  "ethereum =
     [''name'' \<mapsto> JStr ''Ethereum'', ''symbol'' \<mapsto> JStr ''ETH'',
      ''current_price'' \<mapsto> JInt 2000, ''market_cap'' \<mapsto> JInt 500000000,
      ''total_volume'' \<mapsto> JInt 50000, ''price_change_percentage_24h'' \<mapsto> JFloat (-1.2),
      ''market_cap_rank'' \<mapsto> JInt 2]"

text \<open>Reading a field of a nested dict of the result, \<open>d[k1][k2]\<close>.\<close>

definition get_in :: "py_exception + pydict \<Rightarrow> string \<Rightarrow> string \<Rightarrow> pyval option" where
  "get_in res k1 k2 =
     (case res of
        Inl _ \<Rightarrow> None
      | Inr d \<Rightarrow> (case map_of d k1 of Some (PDict inner) \<Rightarrow> map_of inner k2 | _ \<Rightarrow> None))"

definition get_key :: "py_exception + pydict \<Rightarrow> string \<Rightarrow> pyval option" where
  "get_key res k = (case res of Inl _ \<Rightarrow> None | Inr d \<Rightarrow> map_of d k)"

text \<open>The result with its \<open>timestamp\<close> entry removed.\<close>

definition without_timestamp :: "py_exception + pydict \<Rightarrow> py_exception + pydict" where
  "without_timestamp res =
     (case res of Inl e \<Rightarrow> Inl e | Inr d \<Rightarrow> Inr (filter (\<lambda>kv. fst kv \<noteq> ''timestamp'') d))"

text \<open>The number that a field of a record holds, if it holds one: an integer is read as
  the float of the same value.\<close>

definition number_of :: "json option \<Rightarrow> real option" where
  "number_of v =
     (case v of
        Some (JInt i) \<Rightarrow> Some (real_of_int (sint i))
      | Some (JFloat x) \<Rightarrow> Some x
      | _ \<Rightarrow> None)"

text \<open>Sample passes of the loop: a request that times out, a pass in which everything
  succeeds, and one in which only the spreadsheet calls raise.\<close>

definition failing_fetch :: cycle_env where
  "failing_fetch =
     \<lparr>net = RequestRaises Timeout, clock = ''2024-01-01 00:00:00'', emit_raises = None,
      sheets = SheetsOk\<rparr>"

definition good_cycle :: cycle_env where
  "good_cycle =
     \<lparr>net = Response 200 (Json [bitcoin, ethereum]), clock = ''2024-01-01 00:00:00'',
      emit_raises = None, sheets = SheetsOk\<rparr>"

definition failing_sheet :: cycle_env where
  "failing_sheet =
     \<lparr>net = Response 200 (Json [bitcoin, ethereum]), clock = ''2024-01-01 00:00:00'',
      emit_raises = None, sheets = SheetsRaises SheetsApiError\<rparr>"

section \<open>Facts about the embedding\<close>

lemma nrows_set_column: "nrows (set_column d c v) = nrows d"
  by (simp add: set_column_def)

lemma cols_set_column:
  "cols (set_column d c v) c' = (if c' = c then Some (replicate (nrows d) v) else cols d c')"
  by (simp add: set_column_def)

lemma fold_set_column_nrows:
  "nrows (fold (\<lambda>col d. set_column d col (default_value col)) ms df) = nrows df"
  by (induction ms arbitrary: df) (simp_all add: nrows_set_column)

lemma fold_set_column_cols:
  "cols (fold (\<lambda>col d. set_column d col (default_value col)) ms df) c =
     (if c \<in> set ms then Some (replicate (nrows df) (default_value c)) else cols df c)"
proof (induction ms arbitrary: df rule: rev_induct)
  case Nil
  show ?case by simp
next
  case (snoc m ms)
  show ?case
    by (simp add: snoc.IH cols_set_column fold_set_column_nrows)
qed

lemma nrows_fill_missing: "nrows (fill_missing df) = nrows df"
  by (simp add: fill_missing_def fold_set_column_nrows)

lemma cols_fill_missing:
  "cols (fill_missing df) c =
     (if c \<in> set required_columns \<and> cols df c = None
      then Some (replicate (nrows df) (default_value c)) else cols df c)"
  by (simp add: fill_missing_def fold_set_column_cols missing_columns_def)

lemma default_value_current_price: "default_value ''current_price'' = CStr ''N/A''"
  by (simp add: default_value_def)

lemma default_value_market_cap: "default_value ''market_cap'' = CInt 0"
  by (simp add: default_value_def)

lemma required_current_price: "''current_price'' \<in> set required_columns"
  by (simp add: required_columns_def)

lemma required_market_cap: "''market_cap'' \<in> set required_columns"
  by (simp add: required_columns_def)

lemma analysis_try_cases:
  "analysis_try now df =
     (case price_stats df of
        Inl e \<Rightarrow> Inl e
      | Inr ps \<Rightarrow>
          (case market_cap_insights df of
             Inl e \<Rightarrow> Inl e
           | Inr mc \<Rightarrow>
               Inr [(''price_statistics'', PDict ps), (''market_cap_insights'', PDict mc),
                    (''timestamp'', PStr now)]))"
  by (simp add: analysis_try_def ebind_def)

lemma cols_DataFrame:
  "DataFrame data = Inr df \<Longrightarrow>
   cols df c = (if list_ex (\<lambda>r. r c \<noteq> None) data
                then Some (map (\<lambda>r. cell_of (r c)) data) else None)"
  by (auto simp: DataFrame_def)

lemma nrows_DataFrame: "DataFrame data = Inr df \<Longrightarrow> nrows df = length data"
  by (auto simp: DataFrame_def)

lemma numeric_replicate_CStr: "0 < n \<Longrightarrow> numeric (replicate n (CStr s)) = Inl TypeError"
  by (cases n) (simp_all add: numeric_def)

section \<open>The analysis\<close>

text \<open>
  C7. On the empty batch the analysis raises nothing and returns the no-data summary: the
  \<open>error\<close> field says that no data is available, the timestamp is the clock reading,
  and neither \<open>price_statistics\<close> nor \<open>market_cap_insights\<close> is present.
\<close>

theorem analyze_empty_batch:
  "analyze_crypto_data now [] =
     Inr [(''error'', PStr ''No data available for analysis''), (''timestamp'', PStr now)]
   \<and> get_key (analyze_crypto_data now []) ''error'' = Some (PStr ''No data available for analysis'')
   \<and> get_key (analyze_crypto_data now []) ''timestamp'' = Some (PStr now)
   \<and> get_key (analyze_crypto_data now []) ''price_statistics'' = None
   \<and> get_key (analyze_crypto_data now []) ''market_cap_insights'' = None"
  by (simp add: analyze_crypto_data_def get_key_def)

text \<open>
  C10. On a non-empty batch in which no record has \<open>current_price\<close>, the column is filled
  with the string \<open>N/A\<close> in every row, the numeric reduction of that column raises inside
  the \<open>try\<close> block, and the function returns (raising nothing) the dict with
  \<open>error = Analysis failed\<close> and the timestamp, without statistics.
\<close>

theorem analyze_without_current_price:
  assumes "data \<noteq> []" and "\<forall>r \<in> set data. r ''current_price'' = None"
  shows "\<exists>df. DataFrame data = Inr df
           \<and> cols (fill_missing df) ''current_price'' = Some (replicate (length data) (CStr ''N/A''))
           \<and> analysis_try now (fill_missing df) = Inl TypeError
           \<and> analyze_crypto_data now data =
               Inr [(''error'', PStr ''Analysis failed''), (''details'', PExc TypeError),
                    (''timestamp'', PStr now)]"
proof -
  obtain df where df: "DataFrame data = Inr df"
    by (simp add: DataFrame_def)
  have none: "cols df ''current_price'' = None"
    using assms(2) by (simp add: cols_DataFrame [OF df] list_ex_iff)
  have filled: "cols (fill_missing df) ''current_price'' = Some (replicate (length data) (CStr ''N/A''))"
    by (simp add: cols_fill_missing none required_current_price default_value_current_price
        nrows_DataFrame [OF df])
  have "0 < length data" using assms(1) by simp
  then have "series_mean (replicate (length data) (CStr ''N/A'')) = Inl TypeError"
    by (simp add: series_mean_def numeric_replicate_CStr ebind_def)
  then have "price_stats (fill_missing df) = Inl TypeError"
    by (simp add: price_stats_def get_column_def filled ebind_def)
  then have failed: "analysis_try now (fill_missing df) = Inl TypeError"
    by (simp add: analysis_try_cases)
  have "analyze_crypto_data now data =
          Inr [(''error'', PStr ''Analysis failed''), (''details'', PExc TypeError),
               (''timestamp'', PStr now)]"
    using assms(1) by (simp add: analyze_crypto_data_def df failed)
  with df filled failed show ?thesis by blast
qed

theorem analyze_without_current_price_witness:
  "[[''name'' \<mapsto> JStr ''Bitcoin'', ''market_cap'' \<mapsto> JInt 1000000000]] \<noteq> []
   \<and> [''name'' \<mapsto> JStr ''Bitcoin'', ''market_cap'' \<mapsto> JInt 1000000000] ''current_price'' = None
   \<and> analyze_crypto_data ''2024-01-01 00:00:00''
        [[''name'' \<mapsto> JStr ''Bitcoin'', ''market_cap'' \<mapsto> JInt 1000000000]] =
       Inr [(''error'', PStr ''Analysis failed''), (''details'', PExc TypeError),
            (''timestamp'', PStr ''2024-01-01 00:00:00'')]"
  using analyze_without_current_price
    [of "[[''name'' \<mapsto> JStr ''Bitcoin'', ''market_cap'' \<mapsto> JInt 1000000000]]"
        "''2024-01-01 00:00:00''"]
  by auto

text \<open>The sum of an int64 column wraps: three caps of \<open>2^62\<close> add up to \<open>- 2^62\<close>, while a
  column with a gap is float64 and does not wrap.\<close>

lemma series_sum_int64_wraps:
  "series_sum [CInt 4611686018427387904, CInt 4611686018427387904, CInt 4611686018427387904]
     = Inr (Fin (- 4611686018427387904))
   \<and> series_sum [CInt 4611686018427387904, CInt 4611686018427387904, CInt 4611686018427387904,
                   CNaN]
     = Inr (Fin 13835058055282163712)"
  by (simp add: series_sum_def numeric_def ebind_def sum_int64_def sum_float64_def)

lemma sint_add_no_overflow:
  fixes a b :: "64 word"
  assumes "- (2 ^ 63) \<le> sint a + sint b" and "sint a + sint b < 2 ^ 63"
  shows "sint (a + b) = sint a + sint b"
  using assms by (simp add: sint_word_ariths signed_take_bit_int_eq_self)

lemma number_of_cell:
  "number_of v = Some x \<Longrightarrow>
   \<not> is_CStr (cell_of v) \<and> numbers (cell_of v # cs) = x # numbers cs"
  by (auto simp: number_of_def cell_of_def split: option.splits json.splits)

lemma column_of_numbers:
  "map (\<lambda>r. number_of (r k)) data = map Some xs \<Longrightarrow>
   numbers (map (\<lambda>r. cell_of (r k)) data) = xs
   \<and> \<not> list_ex is_CStr (map (\<lambda>r. cell_of (r k)) data)"
proof (induction data arbitrary: xs)
  case Nil
  then show ?case by simp
next
  case (Cons r rs)
  then obtain y ys where xs: "xs = y # ys" and r: "number_of (r k) = Some y"
    and rs: "map (\<lambda>r. number_of (r k)) rs = map Some ys"
    by (cases xs) auto
  from Cons.IH [OF rs] number_of_cell [OF r] show ?case
    by (simp add: xs)
qed

lemma numeric_no_string: "\<not> list_ex is_CStr s \<Longrightarrow> numeric s = Inr (numbers s)"
  by (simp add: numeric_def)

lemma price_stats_numeric:
  assumes "cols df ''current_price'' = Some s" and "\<not> list_ex is_CStr s"
  shows "price_stats df =
      Inr [(''mean_price'', PFloat (mean_of (numbers s))),
           (''median_price'', PFloat (median_of (numbers s))),
           (''price_std_dev'', PFloat (std_of (numbers s))),
           (''min_price'', PFloat (min_of (numbers s))),
           (''max_price'', PFloat (max_of (numbers s)))]"
  using assms
  by (simp add: price_stats_def get_column_def ebind_def series_mean_def series_median_def
      series_std_def series_min_def series_max_def numeric_def)

lemma market_cap_insights_column:
  assumes "cols df ''market_cap'' = Some s"
  shows "market_cap_insights df =
      (if list_ex is_CStr s then Inl TypeError
       else Inr [(''total_market_cap'',
                    PFloat (if list_all is_CInt s then sum_int64 (ints s)
                            else sum_float64 (numbers s))),
                 (''mean_market_cap'', PFloat (mean_of (numbers s))),
                 (''median_market_cap'', PFloat (median_of (numbers s)))])"
  using assms
  by (simp add: market_cap_insights_def get_column_def ebind_def series_sum_def
      series_mean_def series_median_def numeric_def)

text \<open>The total of two caps of 1e9 and 5e8, whether they came as integers or floats.\<close>

lemma total_of_two_caps:
  assumes "number_of v1 = Some 1000000000" and "number_of v2 = Some 500000000"
  shows "(if list_all is_CInt [cell_of v1, cell_of v2] then sum_int64 (ints [cell_of v1, cell_of v2])
          else sum_float64 (numbers [cell_of v1, cell_of v2])) = Fin 1500000000"
proof -
  have ints: "(signed (i + j) :: real) = 1500000000"
    if "(signed i :: real) = 1000000000" "(signed j :: real) = 500000000" for i j :: "64 word"
  proof -
    have "real_of_int (sint i) = 1000000000" "real_of_int (sint j) = 500000000"
      using that by simp_all
    then have "sint i = 1000000000" "sint j = 500000000"
      by linarith+
    then have "sint (i + j) = 1500000000"
      using sint_add_no_overflow [of i j] by simp
    then have "real_of_int (sint (i + j)) = 1500000000"
      by simp
    then show ?thesis by simp
  qed
  from assms show ?thesis
    by (auto simp: number_of_def cell_of_def sum_int64_def sum_float64_def ints
        split: option.splits json.splits)
qed

text \<open>
  C9. For every batch of two records with current prices 50000 and 2000 and market caps
  1e9 and 5e8 (integers or floats, whatever the other fields), the analysis returns
  mean\_price 26000, median\_price 26000, min\_price 2000, max\_price 50000 and
  total\_market\_cap 1.5e9.
\<close>

theorem analyze_two_record_example:
  assumes "number_of (r1 ''current_price'') = Some 50000"
    and "number_of (r2 ''current_price'') = Some 2000"
    and "number_of (r1 ''market_cap'') = Some 1000000000"
    and "number_of (r2 ''market_cap'') = Some 500000000"
  shows "get_in (analyze_crypto_data now [r1, r2]) ''price_statistics'' ''mean_price''
           = Some (PFloat (Fin 26000))
       \<and> get_in (analyze_crypto_data now [r1, r2]) ''price_statistics'' ''median_price''
           = Some (PFloat (Fin 26000))
       \<and> get_in (analyze_crypto_data now [r1, r2]) ''price_statistics'' ''min_price''
           = Some (PFloat (Fin 2000))
       \<and> get_in (analyze_crypto_data now [r1, r2]) ''price_statistics'' ''max_price''
           = Some (PFloat (Fin 50000))
       \<and> get_in (analyze_crypto_data now [r1, r2]) ''market_cap_insights'' ''total_market_cap''
           = Some (PFloat (Fin 1500000000))"
proof -
  let ?p = "[cell_of (r1 ''current_price''), cell_of (r2 ''current_price'')]"
  let ?c = "[cell_of (r1 ''market_cap''), cell_of (r2 ''market_cap'')]"
  obtain df where df: "DataFrame [r1, r2] = Inr df"
    by (simp add: DataFrame_def)
  have present: "r1 ''current_price'' \<noteq> None" "r1 ''market_cap'' \<noteq> None"
    using assms by (auto simp: number_of_def split: option.splits)
  have price: "cols (fill_missing df) ''current_price'' = Some ?p"
    using present by (simp add: cols_fill_missing cols_DataFrame [OF df])
  have cap: "cols (fill_missing df) ''market_cap'' = Some ?c"
    using present by (simp add: cols_fill_missing cols_DataFrame [OF df])
  have p: "numbers ?p = [50000, 2000]" "\<not> list_ex is_CStr ?p"
    using column_of_numbers [of "''current_price''" "[r1, r2]" "[50000, 2000]"] assms
    by simp_all
  have c: "\<not> list_ex is_CStr ?c"
    using column_of_numbers [of "''market_cap''" "[r1, r2]" "[1000000000, 500000000]"] assms
    by simp
  have ps: "price_stats (fill_missing df) =
      Inr [(''mean_price'', PFloat (Fin 26000)),
           (''median_price'', PFloat (Fin 26000)),
           (''price_std_dev'', PFloat (std_of [50000, 2000])),
           (''min_price'', PFloat (Fin 2000)),
           (''max_price'', PFloat (Fin 50000))]"
    by (simp add: price_stats_numeric [OF price p(2)] p(1) mean_of_def median_of_def
        min_of_def max_of_def)
  have mc: "\<exists>m d. market_cap_insights (fill_missing df) =
      Inr [(''total_market_cap'', PFloat (Fin 1500000000)),
           (''mean_market_cap'', PFloat m),
           (''median_market_cap'', PFloat d)]"
    using c total_of_two_caps [OF assms(3,4)]
    by (simp add: market_cap_insights_column [OF cap])
  then obtain m d where mc: "market_cap_insights (fill_missing df) =
      Inr [(''total_market_cap'', PFloat (Fin 1500000000)),
           (''mean_market_cap'', PFloat m),
           (''median_market_cap'', PFloat d)]"
    by blast
  show ?thesis
    by (simp add: analyze_crypto_data_def df analysis_try_cases ps mc get_in_def)
qed

theorem analyze_two_record_example_witness:
  "number_of (bitcoin ''current_price'') = Some 50000
   \<and> number_of (ethereum ''current_price'') = Some 2000
   \<and> number_of (bitcoin ''market_cap'') = Some 1000000000
   \<and> number_of (ethereum ''market_cap'') = Some 500000000
   \<and> get_in (analyze_crypto_data ''2024-01-01 00:00:00'' [bitcoin, ethereum])
        ''price_statistics'' ''mean_price'' = Some (PFloat (Fin 26000))
   \<and> get_in (analyze_crypto_data ''2024-01-01 00:00:00'' [bitcoin, ethereum])
        ''price_statistics'' ''median_price'' = Some (PFloat (Fin 26000))
   \<and> get_in (analyze_crypto_data ''2024-01-01 00:00:00'' [bitcoin, ethereum])
        ''price_statistics'' ''min_price'' = Some (PFloat (Fin 2000))
   \<and> get_in (analyze_crypto_data ''2024-01-01 00:00:00'' [bitcoin, ethereum])
        ''price_statistics'' ''max_price'' = Some (PFloat (Fin 50000))
   \<and> get_in (analyze_crypto_data ''2024-01-01 00:00:00'' [bitcoin, ethereum])
        ''market_cap_insights'' ''total_market_cap'' = Some (PFloat (Fin 1500000000))"
proof -
  have h1: "number_of (bitcoin ''current_price'') = Some 50000"
    by (simp add: bitcoin_def number_of_def)
  have h2: "number_of (ethereum ''current_price'') = Some 2000"
    by (simp add: ethereum_def number_of_def)
  have h3: "number_of (bitcoin ''market_cap'') = Some 1000000000"
    by (simp add: bitcoin_def number_of_def)
  have h4: "number_of (ethereum ''market_cap'') = Some 500000000"
    by (simp add: ethereum_def number_of_def)
  show ?thesis
    using h1 h2 h3 h4 analyze_two_record_example [OF h1 h2 h3 h4, of "''2024-01-01 00:00:00''"]
    by simp
qed

text \<open>
  C3 (as amended). Two calls of the analysis on the same batch return results that agree
  in every field other than \<open>timestamp\<close>; the timestamp is the clock reading of the
  call itself.
\<close>

theorem analyze_same_up_to_timestamp:
  "without_timestamp (analyze_crypto_data now1 data) =
     without_timestamp (analyze_crypto_data now2 data)
   \<and> get_key (analyze_crypto_data now1 data) ''timestamp'' = Some (PStr now1)"
proof (cases "data = []")
  case True
  then show ?thesis
    by (simp add: analyze_crypto_data_def without_timestamp_def get_key_def)
next
  case False
  obtain df where df: "DataFrame data = Inr df"
    by (simp add: DataFrame_def)
  show ?thesis
  proof (cases "price_stats (fill_missing df)")
    case (Inl e)
    with False df show ?thesis
      by (simp add: analyze_crypto_data_def analysis_try_cases without_timestamp_def get_key_def)
  next
    case ps: (Inr ps)
    show ?thesis
    proof (cases "market_cap_insights (fill_missing df)")
      case (Inl e)
      with False df ps show ?thesis
        by (simp add: analyze_crypto_data_def analysis_try_cases without_timestamp_def
            get_key_def)
    next
      case (Inr mc)
      with False df ps show ?thesis
        by (simp add: analyze_crypto_data_def analysis_try_cases without_timestamp_def
            get_key_def)
    qed
  qed
qed

text \<open>
  C3 as stated fails: the same batch analysed at two clock readings gives two different
  results.
\<close>

theorem analyze_twice_counterexample:
  "analyze_crypto_data ''2024-01-01 00:00:00'' [bitcoin, ethereum]
     \<noteq> analyze_crypto_data ''2024-01-01 00:05:00'' [bitcoin, ethereum]"
  by (simp add: analyze_crypto_data_def DataFrame_def bitcoin_def ethereum_def
      fill_missing_def missing_columns_def required_columns_def cell_of_def set_column_def
      default_value_def analysis_try_cases price_stats_def market_cap_insights_def
      get_column_def ebind_def series_mean_def series_median_def series_std_def series_min_def
      series_max_def series_sum_def numeric_def)

text \<open>The market-cap column after filling, when no record holds a string there.\<close>

lemma market_cap_column_numeric:
  assumes df: "DataFrame data = Inr df"
    and nostr: "\<forall>r \<in> set data. \<forall>s. r ''market_cap'' \<noteq> Some (JStr s)"
  shows "\<exists>s. cols (fill_missing df) ''market_cap'' = Some s \<and> \<not> list_ex is_CStr s"
proof (cases "cols df ''market_cap''")
  case None
  then have "cols (fill_missing df) ''market_cap'' = Some (replicate (nrows df) (CInt 0))"
    by (simp add: cols_fill_missing required_market_cap default_value_market_cap)
  moreover have "\<not> list_ex is_CStr (replicate (nrows df) (CInt 0))"
    by (simp add: list_ex_iff)
  ultimately show ?thesis by blast
next
  case (Some s)
  then have s: "s = map (\<lambda>r. cell_of (r ''market_cap'')) data"
    by (simp add: cols_DataFrame [OF df] split: if_splits)
  have "\<not> is_CStr (cell_of (r ''market_cap''))" if "r \<in> set data" for r
    using nostr that by (cases "r ''market_cap''") (auto simp: cell_of_def split: json.splits)
  then have "\<not> list_ex is_CStr s"
    by (auto simp: s list_ex_iff)
  moreover have "cols (fill_missing df) ''market_cap'' = Some s"
    by (simp add: cols_fill_missing Some)
  ultimately show ?thesis by blast
qed

lemma std_of_sample:
  assumes "2 \<le> length xs"
  shows "\<exists>s. std_of xs = Fin s \<and> 0 \<le> s
          \<and> s\<^sup>2 * real (length xs - 1) = (\<Sum>x\<leftarrow>xs. (x - sum_list xs / real (length xs))\<^sup>2)"
proof -
  let ?v = "(\<Sum>x\<leftarrow>xs. (x - sum_list xs / real (length xs))\<^sup>2)"
  have nonneg: "0 \<le> ?v"
    by (rule sum_list_nonneg) auto
  have pos: "0 < real (length xs - 1)"
    using assms by simp
  have eq: "std_of xs = Fin (sqrt (?v / real (length xs - 1)))"
    using assms by (simp add: std_of_def Let_def)
  have "0 \<le> ?v / real (length xs - 1)"
    using nonneg pos by simp
  then have "(sqrt (?v / real (length xs - 1)))\<^sup>2 = ?v / real (length xs - 1)"
    by simp
  then have "(sqrt (?v / real (length xs - 1)))\<^sup>2 * real (length xs - 1) = ?v"
    using pos by simp
  moreover have "0 \<le> sqrt (?v / real (length xs - 1))"
    using nonneg pos by simp
  ultimately show ?thesis
    using eq by blast
qed

lemma std_of_single: "length xs = 1 \<Longrightarrow> std_of xs = NaN"
  by (simp add: std_of_def)

lemma price_std_dev_field:
  assumes prices: "map (\<lambda>r. number_of (r ''current_price'')) data = map Some xs"
    and nostr: "\<forall>r \<in> set data. \<forall>s. r ''market_cap'' \<noteq> Some (JStr s)"
    and ne: "xs \<noteq> []"
  shows "get_in (analyze_crypto_data now data) ''price_statistics'' ''price_std_dev''
           = Some (PFloat (std_of xs))"
proof -
  let ?p = "map (\<lambda>r. cell_of (r ''current_price'')) data"
  have len: "length data = length xs"
    using prices by (metis length_map)
  with ne have data: "data \<noteq> []" by auto
  obtain df where df: "DataFrame data = Inr df"
    by (simp add: DataFrame_def)
  have col: "numbers ?p = xs" "\<not> list_ex is_CStr ?p"
    using column_of_numbers [OF prices] by simp_all
  have "\<exists>r \<in> set data. r ''current_price'' \<noteq> None"
  proof -
    from data obtain r rs where d: "data = r # rs" by (cases data) auto
    with prices obtain x where "number_of (r ''current_price'') = Some x"
      by (cases xs) auto
    then have "r ''current_price'' \<noteq> None"
      by (auto simp: number_of_def split: option.splits)
    with d show ?thesis by auto
  qed
  then have "cols df ''current_price'' = Some ?p"
    by (simp add: cols_DataFrame [OF df] list_ex_iff)
  then have price: "cols (fill_missing df) ''current_price'' = Some ?p"
    by (simp add: cols_fill_missing)
  note ps = price_stats_numeric [OF price col(2)]
  from market_cap_column_numeric [OF df nostr]
  obtain s where cap: "cols (fill_missing df) ''market_cap'' = Some s"
    and s: "\<not> list_ex is_CStr s"
    by blast
  show ?thesis
    using data s
    by (simp add: analyze_crypto_data_def df analysis_try_cases ps
        market_cap_insights_column [OF cap] get_in_def col(1))
qed

text \<open>
  C8 (as amended). On a batch in which every record has a numeric \<open>current_price\<close> (and
  no \<open>market_cap\<close> is a string, so that the analysis succeeds), with N records:
  for N of at least 2 the field \<open>price_std_dev\<close> is the sample standard deviation, the
  non-negative number whose square times N - 1 is the sum of the squared deviations from
  the mean; for N = 1 the field is NaN.
\<close>

theorem price_std_dev_sample:
  assumes "map (\<lambda>r. number_of (r ''current_price'')) data = map Some xs"
    and "\<forall>r \<in> set data. \<forall>s. r ''market_cap'' \<noteq> Some (JStr s)"
  shows "(2 \<le> length xs \<longrightarrow>
           (\<exists>s. get_in (analyze_crypto_data now data) ''price_statistics'' ''price_std_dev''
                   = Some (PFloat (Fin s))
                \<and> 0 \<le> s
                \<and> s\<^sup>2 * real (length xs - 1)
                    = (\<Sum>x\<leftarrow>xs. (x - sum_list xs / real (length xs))\<^sup>2)))
       \<and> (length xs = 1 \<longrightarrow>
            get_in (analyze_crypto_data now data) ''price_statistics'' ''price_std_dev''
              = Some (PFloat NaN))"
proof (intro conjI impI)
  assume two: "2 \<le> length xs"
  then have "xs \<noteq> []" by auto
  from price_std_dev_field [OF assms this] std_of_sample [OF two]
  show "\<exists>s. get_in (analyze_crypto_data now data) ''price_statistics'' ''price_std_dev''
                   = Some (PFloat (Fin s))
                \<and> 0 \<le> s
                \<and> s\<^sup>2 * real (length xs - 1)
                    = (\<Sum>x\<leftarrow>xs. (x - sum_list xs / real (length xs))\<^sup>2)"
    by auto
next
  assume one: "length xs = 1"
  then have "xs \<noteq> []" by auto
  from price_std_dev_field [OF assms this] std_of_single [OF one]
  show "get_in (analyze_crypto_data now data) ''price_statistics'' ''price_std_dev''
              = Some (PFloat NaN)"
    by simp
qed

theorem price_std_dev_sample_witness:
  "map (\<lambda>r. number_of (r ''current_price'')) [bitcoin, ethereum] = map Some [50000, 2000]
   \<and> bitcoin ''market_cap'' = Some (JInt 1000000000)
   \<and> ethereum ''market_cap'' = Some (JInt 500000000)
   \<and> (\<exists>s. get_in (analyze_crypto_data ''2024-01-01 00:00:00'' [bitcoin, ethereum])
              ''price_statistics'' ''price_std_dev'' = Some (PFloat (Fin s))
          \<and> 0 \<le> s \<and> s\<^sup>2 = 1152000000)
   \<and> map (\<lambda>r. number_of (r ''current_price'')) [bitcoin] = map Some [50000]
   \<and> get_in (analyze_crypto_data ''2024-01-01 00:00:00'' [bitcoin])
        ''price_statistics'' ''price_std_dev'' = Some (PFloat NaN)"
proof -
  have h1: "map (\<lambda>r. number_of (r ''current_price'')) [bitcoin, ethereum]
              = map Some [50000, 2000]"
    by (simp add: bitcoin_def ethereum_def number_of_def)
  have h2: "\<forall>r \<in> set [bitcoin, ethereum]. \<forall>s. r ''market_cap'' \<noteq> Some (JStr s)"
    by (simp add: bitcoin_def ethereum_def)
  have h3: "map (\<lambda>r. number_of (r ''current_price'')) [bitcoin] = map Some [50000]"
    by (simp add: bitcoin_def number_of_def)
  have h4: "\<forall>r \<in> set [bitcoin]. \<forall>s. r ''market_cap'' \<noteq> Some (JStr s)"
    by (simp add: bitcoin_def)
  have caps: "bitcoin ''market_cap'' = Some (JInt 1000000000)"
    "ethereum ''market_cap'' = Some (JInt 500000000)"
    by (simp_all add: bitcoin_def ethereum_def)
  from price_std_dev_sample [OF h1 h2, of "''2024-01-01 00:00:00''"]
  have two: "\<exists>s. get_in (analyze_crypto_data ''2024-01-01 00:00:00'' [bitcoin, ethereum])
              ''price_statistics'' ''price_std_dev'' = Some (PFloat (Fin s))
          \<and> 0 \<le> s \<and> s\<^sup>2 = 1152000000"
    by simp
  from price_std_dev_sample [OF h3 h4, of "''2024-01-01 00:00:00''"]
  have one: "get_in (analyze_crypto_data ''2024-01-01 00:00:00'' [bitcoin])
        ''price_statistics'' ''price_std_dev'' = Some (PFloat NaN)"
    by simp
  show ?thesis
    using h1 h3 caps two one by blast
qed

text \<open>
  C8 as stated fails on a batch of one record: \<open>price_std_dev\<close> is NaN, not a number.
\<close>

theorem price_std_dev_single_counterexample:
  "get_in (analyze_crypto_data ''2024-01-01 00:00:00''
       [[''current_price'' \<mapsto> JInt 50000, ''market_cap'' \<mapsto> JInt 1000000000]])
     ''price_statistics'' ''price_std_dev'' = Some (PFloat NaN)"
  by (simp add: analyze_crypto_data_def DataFrame_def
      fill_missing_def missing_columns_def required_columns_def cell_of_def set_column_def
      default_value_def analysis_try_cases price_stats_def market_cap_insights_def
      get_column_def ebind_def series_mean_def series_median_def series_std_def series_min_def
      series_max_def series_sum_def numeric_def std_of_def get_in_def)

lemma map_constant:
  "(\<And>x. x \<in> set xs \<Longrightarrow> f x = v) \<Longrightarrow> map f xs = replicate (length xs) v"
  by (induction xs) simp_all

lemma numbers_of_column:
  "numbers (map (\<lambda>r. cell_of (r k)) data) = List.map_filter (\<lambda>r. number_of (r k)) data"
proof (induction data)
  case Nil
  show ?case by (simp add: List.map_filter_simps)
next
  case (Cons r rs)
  show ?case
  proof (cases "r k")
    case None
    with Cons show ?thesis
      by (simp add: List.map_filter_simps cell_of_def number_of_def)
  next
    case (Some v)
    with Cons show ?thesis
      by (cases v) (simp_all add: List.map_filter_simps cell_of_def number_of_def)
  qed
qed

lemma column_with_gap_not_int64:
  "\<exists>r \<in> set data. r k = None \<Longrightarrow> \<not> list_all is_CInt (map (\<lambda>r. cell_of (r k)) data)"
proof (induction data)
  case Nil
  then show ?case by simp
next
  case (Cons r rs)
  then show ?case
    by (cases "r k = None") (auto simp: cell_of_def)
qed

lemma map_filter_nonempty:
  "x \<in> set xs \<Longrightarrow> f x \<noteq> None \<Longrightarrow> List.map_filter f xs \<noteq> []"
  by (induction xs) (auto split: option.splits)

lemma filled_columns:
  assumes df: "DataFrame data = Inr df" and col: "col \<in> set required_columns"
  shows "cols (fill_missing df) col =
           (if \<forall>r \<in> set data. r col = None
            then Some (replicate (length data) (default_value col))
            else Some (map (\<lambda>r. cell_of (r col)) data))"
proof (cases "\<forall>r \<in> set data. r col = None")
  case True
  then have "cols df col = None"
    by (simp add: cols_DataFrame [OF df] list_ex_iff)
  with True col show ?thesis
    by (simp add: cols_fill_missing nrows_DataFrame [OF df])
next
  case False
  then have "cols df col = Some (map (\<lambda>r. cell_of (r col)) data)"
    by (simp add: cols_DataFrame [OF df] list_ex_iff)
  moreover have "cols (fill_missing df) col = cols df col"
    using calculation by (simp add: cols_fill_missing)
  ultimately show ?thesis
    using False by (simp only: if_False)
qed

lemma missing_market_cap_filled:
  assumes ne: "data \<noteq> []" and none: "\<forall>r \<in> set data. r ''market_cap'' = None"
  shows "analyze_crypto_data now data =
           analyze_crypto_data now (map (\<lambda>r. r(''market_cap'' \<mapsto> JInt 0)) data)"
proof -
  let ?data' = "map (\<lambda>r. r(''market_cap'' \<mapsto> JInt 0)) data"
  obtain df where df: "DataFrame data = Inr df"
    by (simp add: DataFrame_def)
  obtain df' where df': "DataFrame ?data' = Inr df'"
    by (simp add: DataFrame_def)
  have n: "nrows (fill_missing df) = nrows (fill_missing df')"
    by (simp add: nrows_fill_missing nrows_DataFrame [OF df] nrows_DataFrame [OF df'])
  have absent: "cols df ''market_cap'' = None"
    using none by (simp add: cols_DataFrame [OF df] list_ex_iff)
  have at_col: "cols df' ''market_cap'' = Some (replicate (length data) (CInt 0))"
    using ne
    by (simp add: cols_DataFrame [OF df'] list_ex_iff comp_def cell_of_def map_replicate_const)
  have other: "cols df' c = cols df c" if "c \<noteq> ''market_cap''" for c
    using that
    by (simp add: cols_DataFrame [OF df'] cols_DataFrame [OF df] list_ex_iff comp_def)
  have "cols (fill_missing df) c = cols (fill_missing df') c" for c
  proof (cases "c = ''market_cap''")
    case True
    then show ?thesis
      by (simp add: cols_fill_missing absent at_col nrows_DataFrame [OF df]
          required_market_cap default_value_market_cap)
  next
    case False
    then show ?thesis
      by (simp add: cols_fill_missing other nrows_DataFrame [OF df] nrows_DataFrame [OF df'])
  qed
  then have "cols (fill_missing df) = cols (fill_missing df')"
    by (rule ext)
  with n have "fill_missing df = fill_missing df'"
    by simp
  then show ?thesis
    using ne by (simp add: analyze_crypto_data_def df df')
qed

lemma partial_market_cap:
  assumes gap: "\<exists>r \<in> set data. r ''market_cap'' = None"
    and some: "\<exists>r \<in> set data. r ''market_cap'' \<noteq> None"
    and nostr: "\<forall>r \<in> set data. \<forall>s. r ''market_cap'' \<noteq> Some (JStr s)"
    and ok: "get_key (analyze_crypto_data now data) ''error'' = None"
  shows "get_in (analyze_crypto_data now data) ''market_cap_insights'' ''total_market_cap''
           = Some (PFloat (Fin (sum_list (List.map_filter (\<lambda>r. number_of (r ''market_cap'')) data))))
       \<and> get_in (analyze_crypto_data now data) ''market_cap_insights'' ''mean_market_cap''
           = Some (PFloat (Fin (sum_list (List.map_filter (\<lambda>r. number_of (r ''market_cap'')) data)
                / real (length (List.map_filter (\<lambda>r. number_of (r ''market_cap'')) data)))))
       \<and> get_in (analyze_crypto_data now data) ''market_cap_insights'' ''median_market_cap''
           = Some (PFloat (median_of (List.map_filter (\<lambda>r. number_of (r ''market_cap'')) data)))"
proof -
  let ?s = "map (\<lambda>r. cell_of (r ''market_cap'')) data"
  let ?caps = "List.map_filter (\<lambda>r. number_of (r ''market_cap'')) data"
  from some have data: "data \<noteq> []" by auto
  obtain df where df: "DataFrame data = Inr df"
    by (simp add: DataFrame_def)
  have "cols df ''market_cap'' = Some ?s"
    using some by (simp add: cols_DataFrame [OF df] list_ex_iff)
  then have cap: "cols (fill_missing df) ''market_cap'' = Some ?s"
    by (simp add: cols_fill_missing)
  have "\<not> is_CStr (cell_of (r ''market_cap''))" if "r \<in> set data" for r
    using nostr that by (cases "r ''market_cap''") (auto simp: cell_of_def split: json.splits)
  then have s: "\<not> list_ex is_CStr ?s"
    by (auto simp: list_ex_iff)
  have float: "\<not> list_all is_CInt ?s"
    using gap by (rule column_with_gap_not_int64)
  from some obtain r where r: "r \<in> set data" "r ''market_cap'' \<noteq> None"
    by blast
  with nostr have num: "number_of (r ''market_cap'') \<noteq> None"
    by (cases "r ''market_cap''") (auto simp: number_of_def split: json.splits)
  have caps: "?caps \<noteq> []"
    using map_filter_nonempty [of r data "\<lambda>r. number_of (r ''market_cap'')"] r(1) num
    by blast
  obtain ps where ps: "price_stats (fill_missing df) = Inr ps"
  proof (cases "price_stats (fill_missing df)")
    case (Inl e)
    with data have "get_key (analyze_crypto_data now data) ''error'' = Some (PStr ''Analysis failed'')"
      by (simp add: analyze_crypto_data_def df analysis_try_cases get_key_def)
    with ok show ?thesis by simp
  next
    case (Inr ps)
    then show ?thesis by (rule that)
  qed
  have "market_cap_insights (fill_missing df) =
      Inr [(''total_market_cap'', PFloat (sum_float64 (numbers ?s))),
           (''mean_market_cap'', PFloat (mean_of (numbers ?s))),
           (''median_market_cap'', PFloat (median_of (numbers ?s)))]"
    by (simp only: market_cap_insights_column [OF cap] s float if_False)
  then have mc: "market_cap_insights (fill_missing df) =
      Inr [(''total_market_cap'', PFloat (Fin (sum_list ?caps))),
           (''mean_market_cap'', PFloat (Fin (sum_list ?caps / real (length ?caps)))),
           (''median_market_cap'', PFloat (median_of ?caps))]"
    using caps by (simp only: numbers_of_column sum_float64_def mean_of_def if_False)
  have "analyze_crypto_data now data =
      Inr [(''price_statistics'', PDict ps),
           (''market_cap_insights'',
            PDict [(''total_market_cap'', PFloat (Fin (sum_list ?caps))),
                   (''mean_market_cap'', PFloat (Fin (sum_list ?caps / real (length ?caps)))),
                   (''median_market_cap'', PFloat (median_of ?caps))]),
           (''timestamp'', PStr now)]"
    using data by (simp add: analyze_crypto_data_def df analysis_try_cases ps mc)
  then show ?thesis
    by (simp add: get_in_def)
qed

text \<open>
  C4 (as amended). In a non-empty batch a required field that no record has is filled in as a
  whole column before aggregation, with 0 for \<open>market_cap\<close>, 0.0 for the percentage
  changes and \<open>N/A\<close> for \<open>current_price\<close>, \<open>name\<close> and \<open>symbol\<close>; a required
  field that some record has is left as it is, NaN in the records without it. A batch in
  which no record has \<open>market_cap\<close> has the summary of the same batch with every
  \<open>market_cap\<close> set to 0. In a batch in which some records have a numeric
  \<open>market_cap\<close> and others none, when the analysis returns statistics, total, mean and
  median of the market capitalization are those of the records that have the field: an
  absent cap adds nothing to the total and is not counted by mean and median.
\<close>

theorem missing_fields_defaulted:
  assumes "DataFrame data = Inr df" and "data \<noteq> []"
  shows "(\<forall>col \<in> set required_columns.
            cols (fill_missing df) col =
              (if \<forall>r \<in> set data. r col = None
               then Some (replicate (length data) (default_value col))
               else Some (map (\<lambda>r. cell_of (r col)) data)))
       \<and> map default_value required_columns =
            [CInt 0, CStr ''N/A'', CNum 0, CNum 0, CStr ''N/A'', CStr ''N/A'']
       \<and> ((\<forall>r \<in> set data. r ''market_cap'' = None) \<longrightarrow>
            analyze_crypto_data now data =
              analyze_crypto_data now (map (\<lambda>r. r(''market_cap'' \<mapsto> JInt 0)) data))
       \<and> ((\<exists>r \<in> set data. r ''market_cap'' = None)
            \<and> (\<exists>r \<in> set data. r ''market_cap'' \<noteq> None)
            \<and> (\<forall>r \<in> set data. \<forall>s. r ''market_cap'' \<noteq> Some (JStr s))
            \<and> get_key (analyze_crypto_data now data) ''error'' = None \<longrightarrow>
            get_in (analyze_crypto_data now data) ''market_cap_insights'' ''total_market_cap''
              = Some (PFloat (Fin (sum_list
                  (List.map_filter (\<lambda>r. number_of (r ''market_cap'')) data))))
            \<and> get_in (analyze_crypto_data now data) ''market_cap_insights'' ''mean_market_cap''
              = Some (PFloat (Fin
                  (sum_list (List.map_filter (\<lambda>r. number_of (r ''market_cap'')) data)
                   / real (length (List.map_filter (\<lambda>r. number_of (r ''market_cap'')) data)))))
            \<and> get_in (analyze_crypto_data now data) ''market_cap_insights'' ''median_market_cap''
              = Some (PFloat (median_of
                  (List.map_filter (\<lambda>r. number_of (r ''market_cap'')) data))))"
proof (intro conjI)
  show "\<forall>col \<in> set required_columns.
            cols (fill_missing df) col =
              (if \<forall>r \<in> set data. r col = None
               then Some (replicate (length data) (default_value col))
               else Some (map (\<lambda>r. cell_of (r col)) data))"
    using filled_columns [OF assms(1)] by blast
next
  show "map default_value required_columns =
            [CInt 0, CStr ''N/A'', CNum 0, CNum 0, CStr ''N/A'', CStr ''N/A'']"
    by (simp add: required_columns_def default_value_def)
next
  show "(\<forall>r \<in> set data. r ''market_cap'' = None) \<longrightarrow>
            analyze_crypto_data now data =
              analyze_crypto_data now (map (\<lambda>r. r(''market_cap'' \<mapsto> JInt 0)) data)"
    using missing_market_cap_filled [OF assms(2)] by blast
next
  show "(\<exists>r \<in> set data. r ''market_cap'' = None)
            \<and> (\<exists>r \<in> set data. r ''market_cap'' \<noteq> None)
            \<and> (\<forall>r \<in> set data. \<forall>s. r ''market_cap'' \<noteq> Some (JStr s))
            \<and> get_key (analyze_crypto_data now data) ''error'' = None \<longrightarrow>
            get_in (analyze_crypto_data now data) ''market_cap_insights'' ''total_market_cap''
              = Some (PFloat (Fin (sum_list
                  (List.map_filter (\<lambda>r. number_of (r ''market_cap'')) data))))
            \<and> get_in (analyze_crypto_data now data) ''market_cap_insights'' ''mean_market_cap''
              = Some (PFloat (Fin
                  (sum_list (List.map_filter (\<lambda>r. number_of (r ''market_cap'')) data)
                   / real (length (List.map_filter (\<lambda>r. number_of (r ''market_cap'')) data)))))
            \<and> get_in (analyze_crypto_data now data) ''market_cap_insights'' ''median_market_cap''
              = Some (PFloat (median_of
                  (List.map_filter (\<lambda>r. number_of (r ''market_cap'')) data)))"
    using partial_market_cap [of data now] by blast
qed

lemmas eval_defs = analyze_crypto_data_def DataFrame_def
      fill_missing_def missing_columns_def required_columns_def cell_of_def set_column_def
      default_value_def analysis_try_cases price_stats_def market_cap_insights_def
      get_column_def ebind_def series_mean_def series_median_def series_std_def series_min_def
      series_max_def series_sum_def numeric_def mean_of_def median_of_def sum_float64_def
      sum_int64_def min_of_def max_of_def get_in_def get_key_def

theorem missing_fields_defaulted_witness:
  "DataFrame [[''current_price'' \<mapsto> JInt 50000], [''current_price'' \<mapsto> JInt 2000]]
     = Inr (projr (DataFrame
         [[''current_price'' \<mapsto> JInt 50000], [''current_price'' \<mapsto> JInt 2000]]))
   \<and> [[''current_price'' \<mapsto> JInt 50000], [''current_price'' \<mapsto> JInt 2000]] \<noteq> []
   \<and> [''current_price'' \<mapsto> JInt 50000] ''market_cap'' = None
   \<and> [''current_price'' \<mapsto> JInt 2000] ''market_cap'' = None
   \<and> cols (fill_missing (projr (DataFrame
         [[''current_price'' \<mapsto> JInt 50000], [''current_price'' \<mapsto> JInt 2000]])))
         ''market_cap'' = Some [CInt 0, CInt 0]
   \<and> cols (fill_missing (projr (DataFrame
         [[''current_price'' \<mapsto> JInt 50000], [''current_price'' \<mapsto> JInt 2000]])))
         ''name'' = Some [CStr ''N/A'', CStr ''N/A'']
   \<and> cols (fill_missing (projr (DataFrame
         [[''current_price'' \<mapsto> JInt 50000], [''current_price'' \<mapsto> JInt 2000]])))
         ''current_price'' = Some [CInt 50000, CInt 2000]
   \<and> analyze_crypto_data ''2024-01-01 00:00:00''
         [[''current_price'' \<mapsto> JInt 50000], [''current_price'' \<mapsto> JInt 2000]]
       = analyze_crypto_data ''2024-01-01 00:00:00''
         [[''current_price'' \<mapsto> JInt 50000, ''market_cap'' \<mapsto> JInt 0],
          [''current_price'' \<mapsto> JInt 2000, ''market_cap'' \<mapsto> JInt 0]]
   \<and> get_key (analyze_crypto_data ''2024-01-01 00:00:00''
         [[''current_price'' \<mapsto> JInt 50000, ''market_cap'' \<mapsto> JInt 1000000000],
          [''current_price'' \<mapsto> JInt 2000]]) ''error'' = None
   \<and> get_in (analyze_crypto_data ''2024-01-01 00:00:00''
         [[''current_price'' \<mapsto> JInt 50000, ''market_cap'' \<mapsto> JInt 1000000000],
          [''current_price'' \<mapsto> JInt 2000]])
        ''market_cap_insights'' ''total_market_cap'' = Some (PFloat (Fin 1000000000))
   \<and> get_in (analyze_crypto_data ''2024-01-01 00:00:00''
         [[''current_price'' \<mapsto> JInt 50000, ''market_cap'' \<mapsto> JInt 1000000000],
          [''current_price'' \<mapsto> JInt 2000]])
        ''market_cap_insights'' ''mean_market_cap'' = Some (PFloat (Fin 1000000000))
   \<and> get_in (analyze_crypto_data ''2024-01-01 00:00:00''
         [[''current_price'' \<mapsto> JInt 50000, ''market_cap'' \<mapsto> JInt 1000000000],
          [''current_price'' \<mapsto> JInt 2000]])
        ''market_cap_insights'' ''median_market_cap'' = Some (PFloat (Fin 1000000000))"
proof -
  let ?d1 = "[[''current_price'' \<mapsto> JInt 50000], [''current_price'' \<mapsto> JInt 2000]]"
  let ?d2 = "[[''current_price'' \<mapsto> JInt 50000, ''market_cap'' \<mapsto> JInt 1000000000],
          [''current_price'' \<mapsto> JInt 2000]]"
  let ?t = "''2024-01-01 00:00:00''"
  have df1: "DataFrame ?d1 = Inr (projr (DataFrame ?d1))"
    by (simp add: DataFrame_def)
  have df2: "DataFrame ?d2 = Inr (projr (DataFrame ?d2))"
    by (simp add: DataFrame_def)
  have ne1: "?d1 \<noteq> []" and ne2: "?d2 \<noteq> []"
    by simp_all
  have req: "''market_cap'' \<in> set required_columns" "''name'' \<in> set required_columns"
    "''current_price'' \<in> set required_columns"
    by (simp_all add: required_columns_def)
  note one = missing_fields_defaulted [OF df1 ne1, of ?t]
  note two = missing_fields_defaulted [OF df2 ne2, of ?t]
  from one have fill: "\<forall>col \<in> set required_columns.
      cols (fill_missing (projr (DataFrame ?d1))) col =
        (if \<forall>r \<in> set ?d1. r col = None
         then Some (replicate (length ?d1) (default_value col))
         else Some (map (\<lambda>r. cell_of (r col)) ?d1))"
    by blast
  from one have defaults: "map default_value required_columns =
      [CInt 0, CStr ''N/A'', CNum 0, CNum 0, CStr ''N/A'', CStr ''N/A'']"
    by blast
  then have dv: "default_value ''market_cap'' = CInt 0" "default_value ''name'' = CStr ''N/A''"
    by (simp_all add: required_columns_def)
  have c1: "cols (fill_missing (projr (DataFrame ?d1))) ''market_cap'' = Some [CInt 0, CInt 0]"
    using bspec [OF fill req(1)] by (simp add: dv)
  have c2: "cols (fill_missing (projr (DataFrame ?d1))) ''name'' = Some [CStr ''N/A'', CStr ''N/A'']"
    using bspec [OF fill req(2)] by (simp add: dv)
  have c3: "cols (fill_missing (projr (DataFrame ?d1))) ''current_price''
      = Some [CInt 50000, CInt 2000]"
    using bspec [OF fill req(3)] by (simp add: cell_of_def)
  from one have "(\<forall>r \<in> set ?d1. r ''market_cap'' = None) \<longrightarrow>
      analyze_crypto_data ?t ?d1 =
        analyze_crypto_data ?t (map (\<lambda>r. r(''market_cap'' \<mapsto> JInt 0)) ?d1)"
    by blast
  then have c4: "analyze_crypto_data ?t ?d1 =
      analyze_crypto_data ?t
        [[''current_price'' \<mapsto> JInt 50000, ''market_cap'' \<mapsto> JInt 0],
         [''current_price'' \<mapsto> JInt 2000, ''market_cap'' \<mapsto> JInt 0]]"
    by simp
  have ok: "get_key (analyze_crypto_data ?t ?d2) ''error'' = None"
    by (simp add: eval_defs)
  have hyp: "(\<exists>r \<in> set ?d2. r ''market_cap'' = None)
      \<and> (\<exists>r \<in> set ?d2. r ''market_cap'' \<noteq> None)
      \<and> (\<forall>r \<in> set ?d2. \<forall>s. r ''market_cap'' \<noteq> Some (JStr s))"
    by simp
  have caps: "List.map_filter (\<lambda>r. number_of (r ''market_cap'')) ?d2 = [1000000000]"
    by (simp add: number_of_def)
  from two hyp ok have
    "get_in (analyze_crypto_data ?t ?d2) ''market_cap_insights'' ''total_market_cap''
       = Some (PFloat (Fin (sum_list (List.map_filter (\<lambda>r. number_of (r ''market_cap'')) ?d2))))
     \<and> get_in (analyze_crypto_data ?t ?d2) ''market_cap_insights'' ''mean_market_cap''
       = Some (PFloat (Fin (sum_list (List.map_filter (\<lambda>r. number_of (r ''market_cap'')) ?d2)
            / real (length (List.map_filter (\<lambda>r. number_of (r ''market_cap'')) ?d2)))))
     \<and> get_in (analyze_crypto_data ?t ?d2) ''market_cap_insights'' ''median_market_cap''
       = Some (PFloat (median_of (List.map_filter (\<lambda>r. number_of (r ''market_cap'')) ?d2)))"
    by blast
  then have c5:
    "get_in (analyze_crypto_data ?t ?d2) ''market_cap_insights'' ''total_market_cap''
       = Some (PFloat (Fin 1000000000))
     \<and> get_in (analyze_crypto_data ?t ?d2) ''market_cap_insights'' ''mean_market_cap''
       = Some (PFloat (Fin 1000000000))
     \<and> get_in (analyze_crypto_data ?t ?d2) ''market_cap_insights'' ''median_market_cap''
       = Some (PFloat (Fin 1000000000))"
    by (simp only: caps) (simp add: median_of_def)
  have none: "[''current_price'' \<mapsto> JInt 50000] ''market_cap'' = None"
    "[''current_price'' \<mapsto> JInt 2000] ''market_cap'' = None"
    by simp_all
  from df1 ne1 none c1 c2 c3 c4 ok c5 show ?thesis
    by (intro conjI) blast+
qed

text \<open>
  C4 as stated fails when a record lacks \<open>market_cap\<close> and another record has it: the
  mean is taken over the records that have the field (1e9 here), where counting the
  absent cap as 0 gives 5e8.
\<close>

theorem missing_market_cap_counterexample:
  "get_in (analyze_crypto_data ''2024-01-01 00:00:00''
       [[''current_price'' \<mapsto> JInt 50000, ''market_cap'' \<mapsto> JInt 1000000000],
        [''current_price'' \<mapsto> JInt 2000]])
     ''market_cap_insights'' ''mean_market_cap'' = Some (PFloat (Fin 1000000000))
   \<and> get_in (analyze_crypto_data ''2024-01-01 00:00:00''
       [[''current_price'' \<mapsto> JInt 50000, ''market_cap'' \<mapsto> JInt 1000000000],
        [''current_price'' \<mapsto> JInt 2000, ''market_cap'' \<mapsto> JInt 0]])
     ''market_cap_insights'' ''mean_market_cap'' = Some (PFloat (Fin 500000000))"
  by (simp add: eval_defs)

section \<open>The fetch\<close>

lemma fetch_try_cases:
  "fetch_try outcome =
     (case outcome of
        RequestRaises e \<Rightarrow> Inl e
      | Response status_code b \<Rightarrow>
          if 400 \<le> status_code \<and> status_code < 600 then Inl HTTPError
          else (case b of NotJson \<Rightarrow> Inl JSONDecodeError | Json data \<Rightarrow> Inr data))"
  by (cases outcome)
    (simp_all add: fetch_try_def raise_for_status_def response_json_def ebind_def
      split: body.splits)

text \<open>
  C5 (as amended). The fetch never raises: it always returns a list. It returns the empty
  list when the request raises, when the response has a 4xx or 5xx status, and when the
  body is not JSON.
\<close>

theorem fetch_failure_returns_empty:
  "(\<exists>data. fetch_crypto_data outcome = Inr data)
   \<and> fetch_crypto_data (RequestRaises e) = Inr []
   \<and> (400 \<le> status_code \<and> status_code < 600 \<longrightarrow>
        fetch_crypto_data (Response status_code b) = Inr [])
   \<and> fetch_crypto_data (Response status_code NotJson) = Inr []"
  by (simp add: fetch_crypto_data_def fetch_try_cases split: http_outcome.splits body.splits)

theorem fetch_failure_returns_empty_witness:
  "(400::nat) \<le> 503 \<and> (503::nat) < 600
   \<and> fetch_crypto_data (Response 503 (Json [bitcoin, ethereum])) = Inr []
   \<and> fetch_crypto_data (RequestRaises Timeout) = Inr []
   \<and> fetch_crypto_data (Response 200 NotJson) = Inr []"
  using fetch_failure_returns_empty [of "Response 503 (Json [bitcoin, ethereum])" Timeout 503
      "Json [bitcoin, ethereum]"]
    fetch_failure_returns_empty [of "Response 200 NotJson" Timeout 200 NotJson]
  by simp

text \<open>
  C5 as stated fails for a status outside 2xx that \<open>raise_for_status\<close> lets through:
  a 300 response with a JSON body is returned as data.
\<close>

theorem fetch_redirect_status_counterexample:
  "fetch_crypto_data (Response 300 (Json [bitcoin, ethereum])) = Inr [bitcoin, ethereum]
   \<and> fetch_crypto_data (Response 300 (Json [bitcoin, ethereum])) \<noteq> Inr []"
  by (simp add: fetch_crypto_data_def fetch_try_cases)

section \<open>The scheduler loop\<close>

lemma fetch_good: "fetch_crypto_data (Response 200 (Json [bitcoin, ethereum])) = Inr [bitcoin, ethereum]"
  by (simp add: fetch_crypto_data_def fetch_try_cases)

lemma fetch_timeout: "fetch_crypto_data (RequestRaises Timeout) = Inr []"
  by (simp add: fetch_crypto_data_def fetch_try_cases)

lemma analyze_returns: "\<exists>a. analyze_crypto_data now data = Inr a"
  by (simp add: analyze_crypto_data_def DataFrame_def split: sum.splits)

lemma cycle_fetch_empty:
  "fetch_crypto_data (net c) = Inr [] \<Longrightarrow>
   cycle sheets_service error_count c =
     ([Fetch, Warning ''No crypto data fetched'', Sleep 60], error_count + 1)"
  by (simp add: cycle_def cycle_try_def)

lemma cycle_success:
  assumes "fetch_crypto_data (net c) = Inr data" and "data \<noteq> []"
    and "analyze_crypto_data (clock c) data = Inr a"
    and "emit_raises c = None" and "sheets_service \<longrightarrow> sheets c = SheetsOk"
  shows "cycle sheets_service error_count c =
     ([Fetch, Emit data a] @ (if sheets_service then [UpdateSheet data] else []) @ [Sleep 300], 0)"
  using assms by (simp add: cycle_def cycle_try_def update_sheet_def)

lemma cycle_sheet_failure:
  assumes "fetch_crypto_data (net c) = Inr data" and "data \<noteq> []"
    and "analyze_crypto_data (clock c) data = Inr a"
    and "emit_raises c = None" and "sheets c = SheetsRaises e"
  shows "cycle True error_count c =
     ([Fetch, Emit data a, UpdateSheet data, ErrorLog e, Sleep 60], error_count + 1)"
  using assms by (simp add: cycle_def cycle_try_def update_sheet_def)

lemma run_halted:
  "max_errors \<le> error_count \<Longrightarrow>
   run sheets_service error_count script =
     ([Critical ''Background update stopped due to repeated errors''], Halted)"
  by (cases script) simp_all

lemma run_failures:
  assumes "\<forall>c \<in> set fs. fetch_crypto_data (net c) = Inr []"
    and "error_count + length fs \<le> max_errors"
  shows "run sheets_service error_count (fs @ rest) =
     (concat (replicate (length fs) [Fetch, Warning ''No crypto data fetched'', Sleep 60])
        @ fst (run sheets_service (error_count + length fs) rest),
      snd (run sheets_service (error_count + length fs) rest))"
  using assms
proof (induction fs arbitrary: error_count)
  case Nil
  show ?case by simp
next
  case (Cons c fs)
  from Cons.prems have lt: "error_count < max_errors" by simp
  from Cons.prems have c: "fetch_crypto_data (net c) = Inr []" by simp
  from Cons.prems have ih: "run sheets_service (error_count + 1) (fs @ rest) =
     (concat (replicate (length fs) [Fetch, Warning ''No crypto data fetched'', Sleep 60])
        @ fst (run sheets_service (error_count + 1 + length fs) rest),
      snd (run sheets_service (error_count + 1 + length fs) rest))"
    by (intro Cons.IH) simp_all
  show ?case
    using lt ih by (simp add: cycle_fetch_empty [OF c])
qed


text \<open>
  C2. Once \<open>error_count\<close> has reached \<open>max_errors\<close> (5), the loop is left whatever the
  rest of the script holds: nothing more is fetched, the critical line is logged and the
  function returns. In particular five passes in a row whose fetch returns nothing, from
  counter 0, end in the halt after exactly five fetches.
\<close>

theorem halt_after_max_errors:
  "(max_errors \<le> error_count \<longrightarrow>
      run sheets_service error_count script =
        ([Critical ''Background update stopped due to repeated errors''], Halted))
   \<and> (length fs = 5 \<and> (\<forall>c \<in> set fs. fetch_crypto_data (net c) = Inr []) \<longrightarrow>
        background_update sheets_service (fs @ rest) =
          (concat (replicate 5 [Fetch, Warning ''No crypto data fetched'', Sleep 60])
             @ [Critical ''Background update stopped due to repeated errors''], Halted))"
proof (intro conjI impI)
  assume "max_errors \<le> error_count"
  then show "run sheets_service error_count script =
        ([Critical ''Background update stopped due to repeated errors''], Halted)"
    by (rule run_halted)
next
  assume a: "length fs = 5 \<and> (\<forall>c \<in> set fs. fetch_crypto_data (net c) = Inr [])"
  then have "run sheets_service 0 (fs @ rest) =
     (concat (replicate (length fs) [Fetch, Warning ''No crypto data fetched'', Sleep 60])
        @ fst (run sheets_service (0 + length fs) rest),
      snd (run sheets_service (0 + length fs) rest))"
    by (intro run_failures) (simp_all add: max_errors_def)
  moreover have "run sheets_service 5 rest =
      ([Critical ''Background update stopped due to repeated errors''], Halted)"
    by (rule run_halted) (simp add: max_errors_def)
  ultimately show "background_update sheets_service (fs @ rest) =
          (concat (replicate 5 [Fetch, Warning ''No crypto data fetched'', Sleep 60])
             @ [Critical ''Background update stopped due to repeated errors''], Halted)"
    using a by (simp add: background_update_def)
qed

theorem halt_after_max_errors_witness:
  "length (replicate 5 failing_fetch) = 5
   \<and> fetch_crypto_data (net failing_fetch) = Inr []
   \<and> background_update True (replicate 5 failing_fetch @ [good_cycle]) =
       ([Fetch, Warning ''No crypto data fetched'', Sleep 60,
         Fetch, Warning ''No crypto data fetched'', Sleep 60,
         Fetch, Warning ''No crypto data fetched'', Sleep 60,
         Fetch, Warning ''No crypto data fetched'', Sleep 60,
         Fetch, Warning ''No crypto data fetched'', Sleep 60,
         Critical ''Background update stopped due to repeated errors''], Halted)
   \<and> max_errors \<le> 5
   \<and> run True 5 [good_cycle] =
       ([Critical ''Background update stopped due to repeated errors''], Halted)"
proof -
  have f: "fetch_crypto_data (net failing_fetch) = Inr []"
    by (simp add: failing_fetch_def fetch_timeout)
  have m: "max_errors \<le> 5"
    by (simp add: max_errors_def)
  have "background_update True (replicate 5 failing_fetch @ [good_cycle]) =
          (concat (replicate 5 [Fetch, Warning ''No crypto data fetched'', Sleep 60])
             @ [Critical ''Background update stopped due to repeated errors''], Halted)"
    using halt_after_max_errors [of 5 True "[good_cycle]" "replicate 5 failing_fetch" "[good_cycle]"] f
    by simp
  moreover have "run True 5 [good_cycle] =
       ([Critical ''Background update stopped due to repeated errors''], Halted)"
    using halt_after_max_errors [of 5 True "[good_cycle]" "replicate 5 failing_fetch" "[good_cycle]"] m
    by blast
  ultimately show ?thesis
    using f m by (simp add: numeral_eq_Suc)
qed

text \<open>
  C1 (as amended). In a pass in which fetch and analysis succeed and the spreadsheet update
  raises, the result is broadcast before the spreadsheet is touched, so the failure neither
  prevents nor delays the broadcast; the exception reaches the handler of the loop, which
  logs it, adds one to \<open>error_count\<close> and sleeps 60 seconds.
\<close>

theorem persist_failure_counted:
  assumes "fetch_crypto_data (net c) = Inr data" and "data \<noteq> []"
    and "emit_raises c = None" and "sheets c = SheetsRaises e"
  shows "\<exists>a. analyze_crypto_data (clock c) data = Inr a
           \<and> cycle True error_count c =
               ([Fetch, Emit data a, UpdateSheet data, ErrorLog e, Sleep 60], error_count + 1)"
proof -
  obtain a where a: "analyze_crypto_data (clock c) data = Inr a"
    using analyze_returns by blast
  from cycle_sheet_failure [OF assms(1,2) a assms(3,4)] a show ?thesis
    by blast
qed

theorem persist_failure_counted_witness:
  "fetch_crypto_data (net failing_sheet) = Inr [bitcoin, ethereum]
   \<and> [bitcoin, ethereum] \<noteq> []
   \<and> emit_raises failing_sheet = None
   \<and> sheets failing_sheet = SheetsRaises SheetsApiError
   \<and> (\<exists>a. analyze_crypto_data (clock failing_sheet) [bitcoin, ethereum] = Inr a
          \<and> cycle True 2 failing_sheet =
              ([Fetch, Emit [bitcoin, ethereum] a, UpdateSheet [bitcoin, ethereum],
                ErrorLog SheetsApiError, Sleep 60], 3))"
proof -
  have h1: "fetch_crypto_data (net failing_sheet) = Inr [bitcoin, ethereum]"
    by (simp add: failing_sheet_def fetch_good)
  have h2: "[bitcoin, ethereum] \<noteq> []" by simp
  have h3: "emit_raises failing_sheet = None"
    by (simp add: failing_sheet_def)
  have h4: "sheets failing_sheet = SheetsRaises SheetsApiError"
    by (simp add: failing_sheet_def)
  from persist_failure_counted [OF h1 h2 h3 h4, of 2] h1 h3 h4 show ?thesis
    by simp
qed

text \<open>
  C1 as stated fails: a pass whose spreadsheet update raises takes the counter from 0 to 1
  and ends with the one-minute sleep.
\<close>

theorem persist_failure_counterexample:
  "snd (cycle True 0 failing_sheet) = 1
   \<and> last (fst (cycle True 0 failing_sheet)) = Sleep 60"
proof -
  obtain a where a: "analyze_crypto_data (clock failing_sheet) [bitcoin, ethereum] = Inr a"
    using analyze_returns by blast
  have "cycle True 0 failing_sheet =
     ([Fetch, Emit [bitcoin, ethereum] a, UpdateSheet [bitcoin, ethereum],
       ErrorLog SheetsApiError, Sleep 60], 0 + 1)"
    by (rule cycle_sheet_failure [OF _ _ a]) (simp_all add: failing_sheet_def fetch_good)
  then show ?thesis by simp
qed


lemma run_script_end:
  "error_count < max_errors \<Longrightarrow> run sheets_service error_count [] = ([], Running error_count)"
  by simp

text \<open>
  C6 (as amended). In every pass in which the fetch returns data, and neither the broadcast
  nor (when the sheets service exists) the spreadsheet update raises, \<open>error_count\<close> is
  set to 0 and the pass ends with the 300 second sleep. After such a pass following three
  failed fetches the counter is 0, and four further failed fetches leave the loop running
  with counter 4.
\<close>

theorem success_resets_counter:
  "(fetch_crypto_data (net c) = Inr data \<and> data \<noteq> [] \<and> emit_raises c = None
      \<and> (sheets_service \<longrightarrow> sheets c = SheetsOk) \<longrightarrow>
      (\<exists>a. analyze_crypto_data (clock c) data = Inr a
         \<and> cycle sheets_service error_count c =
             ([Fetch, Emit data a] @ (if sheets_service then [UpdateSheet data] else [])
                @ [Sleep 300], 0)))
   \<and> (length fs1 = 3 \<and> length fs2 = 4
       \<and> (\<forall>f \<in> set (fs1 @ fs2). fetch_crypto_data (net f) = Inr [])
       \<and> fetch_crypto_data (net c) = Inr data \<and> data \<noteq> [] \<and> emit_raises c = None
       \<and> (sheets_service \<longrightarrow> sheets c = SheetsOk) \<longrightarrow>
       snd (background_update sheets_service (fs1 @ [c])) = Running 0
       \<and> snd (background_update sheets_service (fs1 @ [c] @ fs2)) = Running 4)"
proof -
  have step: "\<exists>a. analyze_crypto_data (clock c) data = Inr a
         \<and> cycle sheets_service n c =
             ([Fetch, Emit data a] @ (if sheets_service then [UpdateSheet data] else [])
                @ [Sleep 300], 0)"
    if "fetch_crypto_data (net c) = Inr data" "data \<noteq> []" "emit_raises c = None"
      "sheets_service \<longrightarrow> sheets c = SheetsOk" for n
  proof -
    obtain a where a: "analyze_crypto_data (clock c) data = Inr a"
      using analyze_returns by blast
    from cycle_success [OF that(1,2) a that(3,4)] a show ?thesis
      by blast
  qed
  have scenario: "snd (background_update sheets_service (fs1 @ [c])) = Running 0
       \<and> snd (background_update sheets_service (fs1 @ [c] @ fs2)) = Running 4"
    if len: "length fs1 = 3" "length fs2 = 4"
      and fails: "\<forall>f \<in> set (fs1 @ fs2). fetch_crypto_data (net f) = Inr []"
      and ok: "fetch_crypto_data (net c) = Inr data" "data \<noteq> []" "emit_raises c = None"
        "sheets_service \<longrightarrow> sheets c = SheetsOk"
  proof -
    from step [OF ok, of 3] obtain evs where c: "cycle sheets_service 3 c = (evs, 0)"
      by blast
    have first: "snd (run sheets_service 0 (fs1 @ tl)) = snd (run sheets_service 3 tl)" for tl
      using run_failures [of fs1 0 sheets_service tl] fails len
      by (simp add: max_errors_def)
    have after: "snd (run sheets_service 0 (fs2 @ [])) = snd (run sheets_service 4 [])"
      using run_failures [of fs2 0 sheets_service "[]"] fails len
      by (simp add: max_errors_def)
    have "snd (run sheets_service 3 (c # tl)) = snd (run sheets_service 0 tl)" for tl
      by (simp add: max_errors_def c split: prod.splits)
    then have "snd (run sheets_service 0 (fs1 @ c # tl)) = snd (run sheets_service 0 tl)" for tl
      by (simp add: first)
    from this [of "[]"] this [of fs2] after show ?thesis
      by (simp add: background_update_def max_errors_def)
  qed
  from step scenario show ?thesis
    by blast
qed

theorem success_resets_counter_witness:
  "fetch_crypto_data (net good_cycle) = Inr [bitcoin, ethereum]
   \<and> [bitcoin, ethereum] \<noteq> []
   \<and> emit_raises good_cycle = None
   \<and> sheets good_cycle = SheetsOk
   \<and> fetch_crypto_data (net failing_fetch) = Inr []
   \<and> (\<exists>a. cycle True 3 good_cycle =
         ([Fetch, Emit [bitcoin, ethereum] a, UpdateSheet [bitcoin, ethereum], Sleep 300], 0))
   \<and> snd (background_update True
        ([failing_fetch, failing_fetch, failing_fetch] @ [good_cycle]
           @ [failing_fetch, failing_fetch, failing_fetch, failing_fetch])) = Running 4"
proof -
  have h1: "fetch_crypto_data (net good_cycle) = Inr [bitcoin, ethereum]"
    by (simp add: good_cycle_def fetch_good)
  have h2: "emit_raises good_cycle = None" "sheets good_cycle = SheetsOk"
    by (simp_all add: good_cycle_def)
  have h3: "fetch_crypto_data (net failing_fetch) = Inr []"
    by (simp add: failing_fetch_def fetch_timeout)
  note inst = success_resets_counter [where c = good_cycle and data = "[bitcoin, ethereum]"
      and sheets_service = True and error_count = 3
      and ?fs1.0 = "[failing_fetch, failing_fetch, failing_fetch]"
      and ?fs2.0 = "[failing_fetch, failing_fetch, failing_fetch, failing_fetch]"]
  from inst h1 h2 h3 have "\<exists>a. cycle True 3 good_cycle =
         ([Fetch, Emit [bitcoin, ethereum] a, UpdateSheet [bitcoin, ethereum], Sleep 300], 0)"
    by auto
  moreover from inst h1 h2 h3 have "snd (background_update True
        ([failing_fetch, failing_fetch, failing_fetch] @ [good_cycle]
           @ [failing_fetch, failing_fetch, failing_fetch, failing_fetch])) = Running 4"
    by simp
  ultimately show ?thesis
    using h1 h2 h3 by simp
qed

text \<open>
  C6 as stated fails: after three failed fetches, a pass in which fetch and analysis
  succeed but the spreadsheet update raises does not reset the counter, and a single
  further failed fetch halts the loop.
\<close>

theorem persist_failure_then_halt_counterexample:
  "snd (background_update True
     [failing_fetch, failing_fetch, failing_fetch, failing_sheet, failing_fetch]) = Halted"
proof -
  obtain a where a: "analyze_crypto_data (clock failing_sheet) [bitcoin, ethereum] = Inr a"
    using analyze_returns by blast
  have ps: "cycle True n failing_sheet =
     ([Fetch, Emit [bitcoin, ethereum] a, UpdateSheet [bitcoin, ethereum],
       ErrorLog SheetsApiError, Sleep 60], n + 1)" for n
    by (rule cycle_sheet_failure [OF _ _ a]) (simp_all add: failing_sheet_def fetch_good)
  have ff: "cycle True n failing_fetch =
     ([Fetch, Warning ''No crypto data fetched'', Sleep 60], n + 1)" for n
    by (rule cycle_fetch_empty) (simp add: failing_fetch_def fetch_timeout)
  show ?thesis
    by (simp add: background_update_def max_errors_def ps ff)
qed

end
